theory Spec2Isabelle
  imports Complex_Main
begin

section \<open>Data model of \<open>sentry.grouping.ingest.seer\<close>\<close>

text \<open>
  The module decides, during event ingest, whether to ask the Seer similarity service for
  a matching group, makes the call, and records the outcome on a \<open>GroupHash\<close>'s metadata.
  Everything it does beyond returning a value is explicit here: the functions pass a
  \<open>world\<close> (the event's mutable payload, the rate limiter's backend state, the metadata
  rows and a trace of effects in program order) and return \<open>Inl\<close> for a raised exception.
\<close>

datatype pyval = PNone | PBool bool | PInt int | PStr string

text \<open>Python's \<open>bool(v)\<close>.\<close>

fun truthy :: "pyval \<Rightarrow> bool" where
  "truthy PNone = False"
| "truthy (PBool b) = b"
| "truthy (PInt i) = (i \<noteq> 0)"
| "truthy (PStr s) = (s \<noteq> [])"

text \<open>\<open>not s\<close> for a value that is \<open>None\<close> or a string.\<close>

fun not_str :: "string option \<Rightarrow> bool" where
  "not_str None = True"
| "not_str (Some s) = (s = [])"

datatype exn = ZeroDivisionError | IndexError | SeerException string

record project =
  project_id :: int

text \<open>
  \<open>event.data\<close> is a dict. The keys this module reads or writes are fields, \<open>None\<close> for an
  absent key; \<open>exception_type\<close> is what
  \<open>get_path(event.data, "exception", "values", -1, "type")\<close> returns. Every other key is
  in the record's extension, which no function of the module touches.
\<close>

record event_data =
  fingerprint :: "string list option"
  stacktrace_string :: "string option"
  exception_type :: "string option"

record event =
  event_id :: string
  project :: project
  platform :: "string option"
  primary_hash :: string
  data :: event_data

text \<open>A grouping variant, of which the module reads the \<open>type\<close> attribute.\<close>

record variant =
  variant_type :: string

type_synonym variants = "string \<rightharpoonup> variant"

record ratelimit =
  limit :: int
  window :: int

record grouphash =
  gh_id :: nat
  hash :: string
  gh_project_id :: int

record grouphash_metadata =
  date_added :: int
  seer_date_sent :: "int option"
  seer_event_sent :: "string option"
  seer_model :: "string option"
  seer_matched_grouphash :: "grouphash option"
  seer_match_distance :: "rat option"

text \<open>
  One neighbour returned by Seer (\<open>SeerSimilarIssueData\<close>); \<open>asdict\<close> copies it field by
  field, so the JSON form is the same record. The distance is a float that the module
  only copies; it is a rational here.
\<close>

record seer_result =
  parent_hash :: string
  stacktrace_distance :: rat

record similar_issues_metadata =
  results :: "seer_result list"
  similarity_model_version :: string

record request =
  req_event_id :: string
  req_hash :: string
  req_project_id :: int
  req_stacktrace :: string
  req_exception_type :: "string option"
  req_k :: int
  req_referrer :: string
  req_use_reranking :: bool

text \<open>
  The trace. \<open>Enter f\<close> records that the gate called its helper \<open>f\<close>; \<open>Call f\<close> that an
  external collaborator was called; the other constructors are the calls whose arguments
  matter, and the metrics and log records with their payload.
\<close>

datatype effect =
    Enter string
  | Call string
  | Is_limited string ratelimit
  | Seer_request request
  | GroupHash_filter string int
  | Metric_event_content_seer_eligible rat bool string
  | Metric_event_project_backfill_status rat bool
  | Did_call_seer_metric bool string
  | Log_global_ratelimit_hit string int rat
  | Log_project_ratelimit_hit string int rat
  | Log_broken_circuit_breaker string int "(string \<times> pyval) list"
  | Log_empty_stacktrace string int "string option"
  | Log_results string int string "seer_result list" bool
  | Capture_exception exn string int

record 'b world =
  the_event :: event
  limiter :: 'b
  metadata_rows :: "nat \<rightharpoonup> grouphash_metadata"
  trace :: "effect list"

text \<open>
  The collaborators that are not part of the module: constants, options, the utilities of
  \<open>sentry.seer.similarity.utils\<close>, the circuit breaker, the rate limiter backend (a
  transition on its own state \<open>'b\<close>, since a check also counts the attempt), the remote
  call, and the \<open>GroupHash\<close> table.
\<close>

record 'b env =
  SEER_INELIGIBLE_EVENT_PLATFORMS :: "string list"
  SEER_SIMILARITY_MODEL_VERSION :: string
  metrics_sample_rate :: rat
  global_rate_limit :: ratelimit
  per_project_rate_limit :: ratelimit
  circuit_breaker_config :: "(string \<times> pyval) list"
  use_reranking :: bool
  similarity_backfill_completed :: "project \<Rightarrow> pyval"
  utils_event_content_has_stacktrace :: "event \<Rightarrow> bool"
  utils_has_too_many_contributing_frames :: "event \<Rightarrow> variants \<Rightarrow> bool"
  utils_killswitch_enabled :: "int \<Rightarrow> event \<Rightarrow> bool"
  should_allow_request :: bool
  get_stacktrace_string_with_metrics :: "variants \<Rightarrow> string option \<Rightarrow> string option"
  filter_null_from_string :: "string \<Rightarrow> string"
  is_limited :: "string \<Rightarrow> ratelimit \<Rightarrow> 'b \<Rightarrow> bool \<times> 'b"
  get_similarity_data_from_seer :: "request \<Rightarrow> exn + seer_result list"
  grouphash_table :: "grouphash list"

text \<open>The decimal form of an integer, as an f-string writes it.\<close>

definition digit_char :: "nat \<Rightarrow> char" where
  "digit_char d = char_of (48 + d)"

function show_nat :: "nat \<Rightarrow> string" where
  "show_nat n = (if n < 10 then [digit_char n] else show_nat (n div 10) @ [digit_char (n mod 10)])"
  by pat_completeness auto
termination
  by (relation "measure id") auto

declare show_nat.simps [simp del]

definition show_int :: "int \<Rightarrow> string" where
  "show_int i = (if i < 0 then ''-'' @ show_nat (nat (- i)) else show_nat (nat i))"

definition emit :: "effect \<Rightarrow> 'b world \<Rightarrow> 'b world" where
  "emit e w = w\<lparr>trace := trace w @ [e]\<rparr>"

section \<open>The eligibility gate\<close>

definition event_content_is_seer_eligible :: "'b env \<Rightarrow> 'b world \<Rightarrow> bool \<times> 'b world" where
  "event_content_is_seer_eligible env w =
     (let w0 = emit (Enter ''_event_content_is_seer_eligible'') w;
          w1 = emit (Call ''event_content_has_stacktrace'') w0
      in if \<not> utils_event_content_has_stacktrace env (the_event w1) then
           (False, emit (Metric_event_content_seer_eligible (metrics_sample_rate env)
                           False ''no-stacktrace'') w1)
         else if platform (the_event w1) \<in> Some ` set (SEER_INELIGIBLE_EVENT_PLATFORMS env) then
           (False, emit (Metric_event_content_seer_eligible (metrics_sample_rate env)
                           False ''unsupported-platform'') w1)
         else
           (True, emit (Metric_event_content_seer_eligible (metrics_sample_rate env)
                          True ''none'') w1))"

definition has_too_many_contributing_frames ::
  "'b env \<Rightarrow> variants \<Rightarrow> 'b world \<Rightarrow> bool \<times> 'b world" where
  "has_too_many_contributing_frames env vs w =
     (let w0 = emit (Enter ''_has_too_many_contributing_frames'') w;
          w1 = emit (Call ''has_too_many_contributing_frames'') w0
      in if utils_has_too_many_contributing_frames env (the_event w1) vs then
           (True, emit (Did_call_seer_metric False ''excess-frames'') w1)
         else (False, w1))"

definition project_has_similarity_grouping_enabled ::
  "'b env \<Rightarrow> project \<Rightarrow> 'b world \<Rightarrow> bool \<times> 'b world" where
  "project_has_similarity_grouping_enabled env p w =
     (let w0 = emit (Enter ''_project_has_similarity_grouping_enabled'') w;
          w1 = emit (Call ''project.get_option'') w0;
          has_been_backfilled = truthy (similarity_backfill_completed env p)
      in (has_been_backfilled,
          emit (Metric_event_project_backfill_status (metrics_sample_rate env)
                  has_been_backfilled) w1))"

text \<open>
  \<open>fingerprint\<close> defaults to the empty list. A variant object is truthy, so
  \<open>variants.get(a) or variants.get(b)\<close> is the first of the two that is present.
\<close>

definition has_customized_fingerprint ::
  "'b env \<Rightarrow> variants \<Rightarrow> 'b world \<Rightarrow> bool \<times> 'b world" where
  "has_customized_fingerprint env vs w =
     (let w0 = emit (Enter ''_has_customized_fingerprint'') w;
          fp = (case fingerprint (data (the_event w0)) of None \<Rightarrow> [] | Some l \<Rightarrow> l)
      in if ''{{ default }}'' \<in> set fp then
           (if length fp = 1 then (False, w0)
            else (True, emit (Did_call_seer_metric False ''hybrid-fingerprint'') w0))
         else
           (let fingerprint_variant =
                  (case vs ''custom_fingerprint'' of
                     Some v \<Rightarrow> Some v
                   | None \<Rightarrow> vs ''built_in_fingerprint'')
            in case fingerprint_variant of
                 Some v \<Rightarrow> (True, emit (Did_call_seer_metric False (variant_type v)) w0)
               | None \<Rightarrow> (False, w0)))"

text \<open>
  Both quotients are computed before the limiter is consulted; \<open>/\<close> raises on a zero
  window. A call of \<open>is_limited\<close> moves the backend's state.
\<close>

definition ratelimiting_enabled ::
  "'b env \<Rightarrow> project \<Rightarrow> 'b world \<Rightarrow> (exn + bool) \<times> 'b world" where
  "ratelimiting_enabled env p w =
     (let w0 = emit (Enter ''_ratelimiting_enabled'') w;
          global_ratelimit = global_rate_limit env;
          per_project_ratelimit = per_project_rate_limit env
      in if window global_ratelimit = 0 then (Inl ZeroDivisionError, w0)
         else if window per_project_ratelimit = 0 then (Inl ZeroDivisionError, w0)
         else
           let global_limit_per_sec =
                 of_int (limit global_ratelimit) / of_int (window global_ratelimit);
               project_limit_per_sec =
                 of_int (limit per_project_ratelimit) / of_int (window per_project_ratelimit);
               (g, l1) = is_limited env ''seer:similarity:global-limit'' global_ratelimit
                           (limiter w0);
               w1 = emit (Is_limited ''seer:similarity:global-limit'' global_ratelimit)
                      (w0\<lparr>limiter := l1\<rparr>)
           in if g then
                (Inr True,
                 emit (Did_call_seer_metric False ''global-rate-limit'')
                   (emit (Log_global_ratelimit_hit (event_id (the_event w1)) (project_id p)
                            global_limit_per_sec) w1))
              else
                let key = ''seer:similarity:project-'' @ show_int (project_id p) @ ''-limit'';
                    (q, l2) = is_limited env key per_project_ratelimit (limiter w1);
                    w2 = emit (Is_limited key per_project_ratelimit) (w1\<lparr>limiter := l2\<rparr>)
                in if q then
                     (Inr True,
                      emit (Did_call_seer_metric False ''project-rate-limit'')
                        (emit (Log_project_ratelimit_hit (event_id (the_event w2))
                                 (project_id p) project_limit_per_sec) w2))
                   else (Inr False, w2))"

definition circuit_breaker_broken ::
  "'b env \<Rightarrow> project \<Rightarrow> 'b world \<Rightarrow> bool \<times> 'b world" where
  "circuit_breaker_broken env p w =
     (let w0 = emit (Enter ''_circuit_breaker_broken'') w;
          breaker_config = circuit_breaker_config env;
          w1 = emit (Call ''CircuitBreaker.should_allow_request'') w0;
          circuit_broken = (\<not> should_allow_request env)
      in if circuit_broken then
           (circuit_broken,
            emit (Did_call_seer_metric False ''circuit-breaker'')
              (emit (Log_broken_circuit_breaker (event_id (the_event w1)) (project_id p)
                       breaker_config) w1))
         else (circuit_broken, w1))"

definition has_empty_stacktrace_string ::
  "'b env \<Rightarrow> variants \<Rightarrow> 'b world \<Rightarrow> bool \<times> 'b world" where
  "has_empty_stacktrace_string env vs w =
     (let w0 = emit (Enter ''_has_empty_stacktrace_string'') w;
          st = get_stacktrace_string_with_metrics env vs (platform (the_event w0));
          w1 = emit (Call ''get_stacktrace_string_with_metrics'') w0
      in if not_str st then
           (True, if st = Some [] then
                    emit (Did_call_seer_metric False ''empty-stacktrace-string'') w1
                  else w1)
         else
           (False, w1\<lparr>the_event := (the_event w1)
                       \<lparr>data := (data (the_event w1))\<lparr>stacktrace_string := st\<rparr>\<rparr>\<rparr>))"

text \<open>
  The first two checks are both run before either result is used. The six that follow
  are joined by \<open>or\<close>: the first that returns true ends the chain.
\<close>

definition should_call_seer_for_grouping ::
  "'b env \<Rightarrow> variants \<Rightarrow> 'b world \<Rightarrow> (exn + bool) \<times> 'b world" where
  "should_call_seer_for_grouping env vs w =
     (let p = project (the_event w);
          (content_is_eligible, w1) = event_content_is_seer_eligible env w;
          (seer_enabled_for_project, w2) = project_has_similarity_grouping_enabled env p w1
      in if \<not> (content_is_eligible \<and> seer_enabled_for_project) then (Inr False, w2)
         else
           let (c1, w3) = has_customized_fingerprint env vs w2 in
           if c1 then (Inr False, w3)
           else
             let (c2, w4) = has_too_many_contributing_frames env vs w3 in
             if c2 then (Inr False, w4)
             else
               let w5 = emit (Call ''killswitch_enabled'') w4 in
               if utils_killswitch_enabled env (project_id p) (the_event w5) then (Inr False, w5)
               else
                 let (c4, w6) = circuit_breaker_broken env p w5 in
                 if c4 then (Inr False, w6)
                 else
                   let (c5, w7) = has_empty_stacktrace_string env vs w6 in
                   if c5 then (Inr False, w7)
                   else
                     case ratelimiting_enabled env p w7 of
                       (Inl e, w8) \<Rightarrow> (Inl e, w8)
                     | (Inr c6, w8) \<Rightarrow> if c6 then (Inr False, w8) else (Inr True, w8))"

section \<open>The call to Seer\<close>

text \<open>
  The default of \<open>event.data.get("stacktrace_string", ...)\<close> is an argument, so the
  stacktrace string is computed again whether or not the key is present. Only the remote
  call raises. \<open>.filter(...).first()\<close> is the first row of the table with that hash and
  project.
\<close>

definition get_seer_similar_issues ::
  "'b env \<Rightarrow> variants \<Rightarrow> int \<Rightarrow> 'b world
     \<Rightarrow> (exn + similar_issues_metadata \<times> grouphash option) \<times> 'b world" where
  "get_seer_similar_issues env vs num_neighbors w =
     (let event_hash = primary_hash (the_event w);
          ex_type = exception_type (data (the_event w));
          computed = get_stacktrace_string_with_metrics env vs (platform (the_event w));
          w1 = emit (Call ''get_stacktrace_string_with_metrics'') w;
          st = (case stacktrace_string (data (the_event w1)) of
                  Some s \<Rightarrow> Some s
                | None \<Rightarrow> computed)
      in if not_str st then
           (Inr (\<lparr>results = [],
                   similarity_model_version = SEER_SIMILARITY_MODEL_VERSION env\<rparr>, None),
            emit (Log_empty_stacktrace (event_id (the_event w1))
                    (project_id (project (the_event w1))) st) w1)
         else
           let request_data =
                 \<lparr>req_event_id = event_id (the_event w1),
                  req_hash = event_hash,
                  req_project_id = project_id (project (the_event w1)),
                  req_stacktrace = the st,
                  req_exception_type =
                    (if not_str ex_type then None
                     else Some (filter_null_from_string env (the ex_type))),
                  req_k = num_neighbors,
                  req_referrer = ''ingest'',
                  req_use_reranking = use_reranking env\<rparr>;
               w2 = w1\<lparr>the_event := (the_event w1)
                         \<lparr>data := (data (the_event w1))\<lparr>stacktrace_string := None\<rparr>\<rparr>\<rparr>;
               w3 = emit (Seer_request request_data) w2
           in case get_similarity_data_from_seer env request_data of
                Inl e \<Rightarrow> (Inl e, w3)
              | Inr seer_results \<Rightarrow>
                  let similar_issues_metadata =
                        \<lparr>results = seer_results,
                         similarity_model_version = SEER_SIMILARITY_MODEL_VERSION env\<rparr>;
                      pid = project_id (project (the_event w3));
                      (parent_grouphash, w4) =
                        (case seer_results of
                           [] \<Rightarrow> (None, w3)
                         | r # _ \<Rightarrow>
                             (find (\<lambda>g. hash g = parent_hash r \<and> gh_project_id g = pid)
                                (grouphash_table env),
                              emit (GroupHash_filter (parent_hash r) pid) w3))
                  in (Inr (similar_issues_metadata, parent_grouphash),
                      emit (Log_results (event_id (the_event w4)) pid event_hash seer_results
                              (parent_grouphash \<noteq> None)) w4))"

section \<open>The orchestrator\<close>

text \<open>
  \<open>grouphash.metadata\<close> is the row of the metadata table with the grouphash's id, and
  \<open>gh_metadata.update(...)\<close> overwrites it. The keyword arguments are evaluated before
  the update. \<open>list(filter(...))[0]\<close> raises on an empty list, outside the \<open>try\<close>.
\<close>

definition maybe_check_seer_for_matching_grouphash ::
  "'b env \<Rightarrow> variants \<Rightarrow> grouphash list \<Rightarrow> 'b world
     \<Rightarrow> (exn + grouphash option) \<times> 'b world" where
  "maybe_check_seer_for_matching_grouphash env vs all_grouphashes w =
     (case should_call_seer_for_grouping env vs w of
        (Inl e, w1) \<Rightarrow> (Inl e, w1)
      | (Inr False, w1) \<Rightarrow> (Inr None, w1)
      | (Inr True, w1) \<Rightarrow>
          (let w2 = emit (Did_call_seer_metric True ''none'') w1 in
           (case get_seer_similar_issues env vs 1 w2 of
              (Inl e, w3) \<Rightarrow>
                (Inr None,
                 emit (Capture_exception e (event_id (the_event w3))
                         (project_id (project (the_event w3)))) w3)
            | (Inr (seer_response_data, matched_grouphash), w3) \<Rightarrow>
                (let primary = primary_hash (the_event w3) in
                 (case filter (\<lambda>g. hash g = primary) all_grouphashes of
                    [] \<Rightarrow> (Inl IndexError, w3)
                  | grouphash_sent # _ \<Rightarrow>
                      (case metadata_rows w3 (gh_id grouphash_sent) of
                         None \<Rightarrow> (Inr matched_grouphash, w3)
                       | Some gh_metadata \<Rightarrow>
                           (case (case matched_grouphash of
                                    None \<Rightarrow> Inr None
                                  | Some _ \<Rightarrow>
                                      (case results seer_response_data of
                                         [] \<Rightarrow> Inl IndexError
                                       | r # _ \<Rightarrow> Inr (Some (stacktrace_distance r)))) of
                              Inl e \<Rightarrow> (Inl e, w3)
                            | Inr distance \<Rightarrow>
                                (Inr matched_grouphash,
                                 w3\<lparr>metadata_rows := (metadata_rows w3)
                                      (gh_id grouphash_sent :=
                                         Some (gh_metadata
                                           \<lparr>seer_date_sent := Some (date_added gh_metadata),
                                            seer_event_sent := Some (event_id (the_event w3)),
                                            seer_model :=
                                              Some (similarity_model_version seer_response_data),
                                            seer_matched_grouphash := matched_grouphash,
                                            seer_match_distance := distance\<rparr>))\<rparr>))))))))"

section \<open>A concrete deployment\<close>

text \<open>
  A limiter backend that counts the checks made against each key and reports a key as
  limited once the count would pass the limit; one project, one event with a default
  fingerprint, one stored grouphash with a metadata row.
\<close>

definition counting_is_limited ::
  "string \<Rightarrow> ratelimit \<Rightarrow> (string \<Rightarrow> int) \<Rightarrow> bool \<times> (string \<Rightarrow> int)" where
  "counting_is_limited key r c = (limit r < c key + 1, c(key := c key + 1))"

definition ex_project :: project where
  "ex_project = \<lparr>project_id = 1\<rparr>"

definition ex_event :: event where
  "ex_event =
     \<lparr>event_id = ''e1'', project = ex_project, platform = Some ''python'',
      primary_hash = ''h1'',
      data = \<lparr>fingerprint = Some [''{{ default }}''], stacktrace_string = None,
              exception_type = Some ''ValueError''\<rparr>\<rparr>"

definition ex_grouphash :: grouphash where
  "ex_grouphash = \<lparr>gh_id = 7, hash = ''h1'', gh_project_id = 1\<rparr>"

definition ex_parent :: grouphash where
  "ex_parent = \<lparr>gh_id = 3, hash = ''h0'', gh_project_id = 1\<rparr>"

definition ex_metadata :: grouphash_metadata where
  "ex_metadata =
     \<lparr>date_added = 1000, seer_date_sent = None, seer_event_sent = None, seer_model = None,
      seer_matched_grouphash = None, seer_match_distance = None\<rparr>"

definition ex_world :: "(string \<Rightarrow> int) world" where
  "ex_world =
     \<lparr>the_event = ex_event, limiter = (\<lambda>_. 0),
      metadata_rows = [7 \<mapsto> ex_metadata], trace = []\<rparr>"

definition ex_env :: "(string \<Rightarrow> int) env" where
  "ex_env =
     \<lparr>SEER_INELIGIBLE_EVENT_PLATFORMS = [''other''],
      SEER_SIMILARITY_MODEL_VERSION = ''v0'',
      metrics_sample_rate = 1,
      global_rate_limit = \<lparr>limit = 20, window = 1\<rparr>,
      per_project_rate_limit = \<lparr>limit = 5, window = 1\<rparr>,
      circuit_breaker_config = [],
      use_reranking = True,
      similarity_backfill_completed = (\<lambda>_. PInt 1700000000),
      utils_event_content_has_stacktrace = (\<lambda>_. True),
      utils_has_too_many_contributing_frames = (\<lambda>_ _. False),
      utils_killswitch_enabled = (\<lambda>_ _. False),
      should_allow_request = True,
      get_stacktrace_string_with_metrics = (\<lambda>_ _. Some ''frame''),
      filter_null_from_string = filter (\<lambda>c. c \<noteq> CHR 0x00),
      is_limited = counting_is_limited,
      get_similarity_data_from_seer =
        (\<lambda>_. Inr [\<lparr>parent_hash = ''h0'', stacktrace_distance = 1 / 100\<rparr>]),
      grouphash_table = [ex_parent, ex_grouphash]\<rparr>"

section \<open>Reading the trace\<close>

text \<open>
  What a run added to the trace, the projections of a trace that the properties speak
  about (the checks of the gate that were entered, the calls of the limiter, the blocker
  tags recorded), and, for each helper of the gate, the effects it appends, as functions
  of the event and the collaborators only. \<open>global_check\<close> and \<open>project_check\<close> are the
  two limiter calls of \<open>_ratelimiting_enabled\<close>; the second one runs on the backend
  state that the first one leaves.
\<close>

definition new_effects :: "'b world \<Rightarrow> 'b world \<Rightarrow> effect list" where
  "new_effects w w' = drop (length (trace w)) (trace w')"

fun is_limiter_call :: "effect \<Rightarrow> bool" where
  "is_limiter_call (Is_limited _ _) = True"
| "is_limiter_call _ = False"

fun is_gate_check :: "effect \<Rightarrow> bool" where
  "is_gate_check (Enter _) = True"
| "is_gate_check (Call f) = (f = ''killswitch_enabled'')"
| "is_gate_check _ = False"

definition content_effects :: "'b env \<Rightarrow> event \<Rightarrow> effect list" where
  "content_effects env ev =
     [Enter ''_event_content_is_seer_eligible'', Call ''event_content_has_stacktrace'',
      Metric_event_content_seer_eligible (metrics_sample_rate env)
        (utils_event_content_has_stacktrace env ev
         \<and> platform ev \<notin> Some ` set (SEER_INELIGIBLE_EVENT_PLATFORMS env))
        (if \<not> utils_event_content_has_stacktrace env ev then ''no-stacktrace''
         else if platform ev \<in> Some ` set (SEER_INELIGIBLE_EVENT_PLATFORMS env)
         then ''unsupported-platform'' else ''none'')]"

definition backfill_effects :: "'b env \<Rightarrow> project \<Rightarrow> effect list" where
  "backfill_effects env p =
     [Enter ''_project_has_similarity_grouping_enabled'', Call ''project.get_option'',
      Metric_event_project_backfill_status (metrics_sample_rate env)
        (truthy (similarity_backfill_completed env p))]"

definition fingerprint_blocker :: "event \<Rightarrow> variants \<Rightarrow> string option" where
  "fingerprint_blocker ev vs =
     (let fp = (case fingerprint (data ev) of None \<Rightarrow> [] | Some l \<Rightarrow> l)
      in if ''{{ default }}'' \<in> set fp then
           (if length fp = 1 then None else Some ''hybrid-fingerprint'')
         else (case vs ''custom_fingerprint'' of
                 Some v \<Rightarrow> Some (variant_type v)
               | None \<Rightarrow> map_option variant_type (vs ''built_in_fingerprint'')))"

definition fingerprint_effects :: "event \<Rightarrow> variants \<Rightarrow> effect list" where
  "fingerprint_effects ev vs =
     Enter ''_has_customized_fingerprint'' #
       (case fingerprint_blocker ev vs of
          None \<Rightarrow> [] | Some b \<Rightarrow> [Did_call_seer_metric False b])"

definition frames_effects :: "'b env \<Rightarrow> event \<Rightarrow> variants \<Rightarrow> effect list" where
  "frames_effects env ev vs =
     Enter ''_has_too_many_contributing_frames'' #
       Call ''has_too_many_contributing_frames'' #
       (if utils_has_too_many_contributing_frames env ev vs
        then [Did_call_seer_metric False ''excess-frames''] else [])"

definition breaker_effects :: "'b env \<Rightarrow> event \<Rightarrow> project \<Rightarrow> effect list" where
  "breaker_effects env ev p =
     Enter ''_circuit_breaker_broken'' # Call ''CircuitBreaker.should_allow_request'' #
       (if should_allow_request env then []
        else [Log_broken_circuit_breaker (event_id ev) (project_id p)
                (circuit_breaker_config env),
              Did_call_seer_metric False ''circuit-breaker''])"

definition stacktrace_effects :: "'b env \<Rightarrow> event \<Rightarrow> variants \<Rightarrow> effect list" where
  "stacktrace_effects env ev vs =
     Enter ''_has_empty_stacktrace_string'' #
       Call ''get_stacktrace_string_with_metrics'' #
       (if get_stacktrace_string_with_metrics env vs (platform ev) = Some []
        then [Did_call_seer_metric False ''empty-stacktrace-string''] else [])"

definition global_key :: string where
  "global_key = ''seer:similarity:global-limit''"

definition project_key :: "project \<Rightarrow> string" where
  "project_key p = ''seer:similarity:project-'' @ show_int (project_id p) @ ''-limit''"

definition zero_window :: "'b env \<Rightarrow> bool" where
  "zero_window env \<longleftrightarrow>
     window (global_rate_limit env) = 0 \<or> window (per_project_rate_limit env) = 0"

definition global_check :: "'b env \<Rightarrow> 'b \<Rightarrow> bool \<times> 'b" where
  "global_check env l = is_limited env global_key (global_rate_limit env) l"

definition project_check :: "'b env \<Rightarrow> project \<Rightarrow> 'b \<Rightarrow> bool \<times> 'b" where
  "project_check env p l =
     is_limited env (project_key p) (per_project_rate_limit env) (snd (global_check env l))"

definition ratelimit_effects :: "'b env \<Rightarrow> string \<Rightarrow> project \<Rightarrow> 'b \<Rightarrow> effect list" where
  "ratelimit_effects env eid p l =
     Enter ''_ratelimiting_enabled'' #
       (if zero_window env then []
        else Is_limited global_key (global_rate_limit env) #
          (if fst (global_check env l) then
             [Log_global_ratelimit_hit eid (project_id p)
                (of_int (limit (global_rate_limit env)) / of_int (window (global_rate_limit env))),
              Did_call_seer_metric False ''global-rate-limit'']
           else Is_limited (project_key p) (per_project_rate_limit env) #
             (if fst (project_check env p l) then
                [Log_project_ratelimit_hit eid (project_id p)
                   (of_int (limit (per_project_rate_limit env))
                      / of_int (window (per_project_rate_limit env))),
                 Did_call_seer_metric False ''project-rate-limit'']
              else [])))"

definition passes_first_seven :: "'b env \<Rightarrow> variants \<Rightarrow> 'b world \<Rightarrow> bool" where
  "passes_first_seven env vs w \<longleftrightarrow>
     fst (event_content_is_seer_eligible env w)
     \<and> fst (project_has_similarity_grouping_enabled env (project (the_event w)) w)
     \<and> \<not> fst (has_customized_fingerprint env vs w)
     \<and> \<not> fst (has_too_many_contributing_frames env vs w)
     \<and> \<not> utils_killswitch_enabled env (project_id (project (the_event w))) (the_event w)
     \<and> \<not> fst (circuit_breaker_broken env (project (the_event w)) w)
     \<and> \<not> fst (has_empty_stacktrace_string env vs w)"

fun blocker_of :: "effect \<Rightarrow> string option" where
  "blocker_of (Did_call_seer_metric c b) = (if c then None else Some b)"
| "blocker_of _ = None"

definition blockers :: "effect list \<Rightarrow> string list" where
  "blockers xs = List.map_filter blocker_of xs"






definition ex_env_global_limited :: "(string \<Rightarrow> int) env" where
  "ex_env_global_limited = ex_env\<lparr>global_rate_limit := \<lparr>limit = 0, window = 1\<rparr>\<rparr>"

definition ex_env_seer_down :: "(string \<Rightarrow> int) env" where
  "ex_env_seer_down =
     ex_env\<lparr>get_similarity_data_from_seer := (\<lambda>_. Inl (SeerException ''timeout''))\<rparr>"

definition ex_env_no_results :: "(string \<Rightarrow> int) env" where
  "ex_env_no_results = ex_env\<lparr>get_similarity_data_from_seer := (\<lambda>_. Inr [])\<rparr>"

definition ex_world_hybrid :: "(string \<Rightarrow> int) world" where
  "ex_world_hybrid =
     ex_world\<lparr>the_event := ex_event\<lparr>data := (data ex_event)
        \<lparr>fingerprint := Some [''{{ default }}'', ''extra'']\<rparr>\<rparr>\<rparr>"



text \<open>
  For \<open>get_seer_similar_issues\<close>: the stacktrace string it uses (the cached one when the
  key is present), the request it builds, the lookup of the parent grouphash, and the
  effects it appends. The projections read the requests sent to Seer and the queries made
  on the \<open>GroupHash\<close> table off a trace.
\<close>

definition seer_stacktrace :: "'b env \<Rightarrow> variants \<Rightarrow> 'b world \<Rightarrow> string option" where
  "seer_stacktrace env vs w =
     (case stacktrace_string (data (the_event w)) of
        Some s \<Rightarrow> Some s
      | None \<Rightarrow> get_stacktrace_string_with_metrics env vs (platform (the_event w)))"

definition seer_request :: "'b env \<Rightarrow> variants \<Rightarrow> int \<Rightarrow> 'b world \<Rightarrow> request" where
  "seer_request env vs k w =
     \<lparr>req_event_id = event_id (the_event w),
      req_hash = primary_hash (the_event w),
      req_project_id = project_id (project (the_event w)),
      req_stacktrace = the (seer_stacktrace env vs w),
      req_exception_type =
        (if not_str (exception_type (data (the_event w))) then None
         else Some (filter_null_from_string env (the (exception_type (data (the_event w)))))),
      req_k = k,
      req_referrer = ''ingest'',
      req_use_reranking = use_reranking env\<rparr>"

definition parent_lookup :: "'b env \<Rightarrow> int \<Rightarrow> seer_result list \<Rightarrow> grouphash option" where
  "parent_lookup env pid rs =
     (case rs of
        [] \<Rightarrow> None
      | r # _ \<Rightarrow> find (\<lambda>g. hash g = parent_hash r \<and> gh_project_id g = pid) (grouphash_table env))"

definition seer_effects :: "'b env \<Rightarrow> variants \<Rightarrow> int \<Rightarrow> 'b world \<Rightarrow> effect list" where
  "seer_effects env vs k w =
     Call ''get_stacktrace_string_with_metrics'' #
       (if not_str (seer_stacktrace env vs w) then
          [Log_empty_stacktrace (event_id (the_event w)) (project_id (project (the_event w)))
             (seer_stacktrace env vs w)]
        else
          Seer_request (seer_request env vs k w) #
            (case get_similarity_data_from_seer env (seer_request env vs k w) of
               Inl e \<Rightarrow> []
             | Inr rs \<Rightarrow>
                 (case rs of
                    [] \<Rightarrow> []
                  | r # _ \<Rightarrow>
                      [GroupHash_filter (parent_hash r) (project_id (project (the_event w)))])
                 @ [Log_results (event_id (the_event w)) (project_id (project (the_event w)))
                      (primary_hash (the_event w)) rs
                      (parent_lookup env (project_id (project (the_event w))) rs \<noteq> None)]))"

fun request_of :: "effect \<Rightarrow> request option" where
  "request_of (Seer_request r) = Some r"
| "request_of _ = None"

definition seer_requests :: "effect list \<Rightarrow> request list" where
  "seer_requests xs = List.map_filter request_of xs"

fun query_of :: "effect \<Rightarrow> (string \<times> int) option" where
  "query_of (GroupHash_filter h p) = Some (h, p)"
| "query_of _ = None"

definition grouphash_queries :: "effect list \<Rightarrow> (string \<times> int) list" where
  "grouphash_queries xs = List.map_filter query_of xs"

text \<open>The world in which the orchestrator calls \<open>get_seer_similar_issues\<close>.\<close>

definition after_gate :: "'b env \<Rightarrow> variants \<Rightarrow> 'b world \<Rightarrow> 'b world" where
  "after_gate env vs w =
     emit (Did_call_seer_metric True ''none'') (snd (should_call_seer_for_grouping env vs w))"

section \<open>What each helper of the gate does\<close>

lemma emit_simps [simp]:
  "the_event (emit e w) = the_event w"
  "limiter (emit e w) = limiter w"
  "metadata_rows (emit e w) = metadata_rows w"
  "trace (emit e w) = trace w @ [e]"
  by (simp_all add: emit_def)

lemma content_frame [simp]:
  "the_event (snd (event_content_is_seer_eligible env w)) = the_event w"
  "limiter (snd (event_content_is_seer_eligible env w)) = limiter w"
  "metadata_rows (snd (event_content_is_seer_eligible env w)) = metadata_rows w"
  by (simp_all add: event_content_is_seer_eligible_def Let_def)

lemma content_fst:
  "fst (event_content_is_seer_eligible env w) \<longleftrightarrow>
     utils_event_content_has_stacktrace env (the_event w)
     \<and> platform (the_event w) \<notin> Some ` set (SEER_INELIGIBLE_EVENT_PLATFORMS env)"
  by (simp add: event_content_is_seer_eligible_def Let_def)

lemma content_trace:
  "trace (snd (event_content_is_seer_eligible env w)) =
     trace w @ content_effects env (the_event w)"
  by (simp add: event_content_is_seer_eligible_def content_effects_def Let_def)

lemma backfill_frame [simp]:
  "the_event (snd (project_has_similarity_grouping_enabled env p w)) = the_event w"
  "limiter (snd (project_has_similarity_grouping_enabled env p w)) = limiter w"
  "metadata_rows (snd (project_has_similarity_grouping_enabled env p w)) = metadata_rows w"
  by (simp_all add: project_has_similarity_grouping_enabled_def Let_def)

lemma backfill_fst:
  "fst (project_has_similarity_grouping_enabled env p w) \<longleftrightarrow>
     truthy (similarity_backfill_completed env p)"
  by (simp add: project_has_similarity_grouping_enabled_def Let_def)

lemma backfill_trace:
  "trace (snd (project_has_similarity_grouping_enabled env p w)) =
     trace w @ backfill_effects env p"
  by (simp add: project_has_similarity_grouping_enabled_def backfill_effects_def Let_def)

lemma fingerprint_frame [simp]:
  "the_event (snd (has_customized_fingerprint env vs w)) = the_event w"
  "limiter (snd (has_customized_fingerprint env vs w)) = limiter w"
  "metadata_rows (snd (has_customized_fingerprint env vs w)) = metadata_rows w"
  by (simp_all add: has_customized_fingerprint_def Let_def split: option.splits)

lemma fingerprint_fst:
  "fst (has_customized_fingerprint env vs w) \<longleftrightarrow> fingerprint_blocker (the_event w) vs \<noteq> None"
  by (simp add: has_customized_fingerprint_def fingerprint_blocker_def Let_def split: option.splits)

lemma fingerprint_trace:
  "trace (snd (has_customized_fingerprint env vs w)) =
     trace w @ fingerprint_effects (the_event w) vs"
  by (simp add: has_customized_fingerprint_def fingerprint_blocker_def fingerprint_effects_def
        Let_def split: option.splits)

lemma frames_frame [simp]:
  "the_event (snd (has_too_many_contributing_frames env vs w)) = the_event w"
  "limiter (snd (has_too_many_contributing_frames env vs w)) = limiter w"
  "metadata_rows (snd (has_too_many_contributing_frames env vs w)) = metadata_rows w"
  by (simp_all add: has_too_many_contributing_frames_def Let_def)

lemma frames_fst:
  "fst (has_too_many_contributing_frames env vs w) \<longleftrightarrow>
     utils_has_too_many_contributing_frames env (the_event w) vs"
  by (simp add: has_too_many_contributing_frames_def Let_def)

lemma frames_trace:
  "trace (snd (has_too_many_contributing_frames env vs w)) =
     trace w @ frames_effects env (the_event w) vs"
  by (simp add: has_too_many_contributing_frames_def frames_effects_def Let_def)

lemma breaker_frame [simp]:
  "the_event (snd (circuit_breaker_broken env p w)) = the_event w"
  "limiter (snd (circuit_breaker_broken env p w)) = limiter w"
  "metadata_rows (snd (circuit_breaker_broken env p w)) = metadata_rows w"
  by (simp_all add: circuit_breaker_broken_def Let_def)

lemma breaker_fst:
  "fst (circuit_breaker_broken env p w) \<longleftrightarrow> \<not> should_allow_request env"
  by (simp add: circuit_breaker_broken_def Let_def)

lemma breaker_trace:
  "trace (snd (circuit_breaker_broken env p w)) =
     trace w @ breaker_effects env (the_event w) p"
  by (simp add: circuit_breaker_broken_def breaker_effects_def Let_def)

lemma stacktrace_frame [simp]:
  "limiter (snd (has_empty_stacktrace_string env vs w)) = limiter w"
  "metadata_rows (snd (has_empty_stacktrace_string env vs w)) = metadata_rows w"
  by (simp_all add: has_empty_stacktrace_string_def Let_def)

lemma stacktrace_event:
  "the_event (snd (has_empty_stacktrace_string env vs w)) =
     (if not_str (get_stacktrace_string_with_metrics env vs (platform (the_event w)))
      then the_event w
      else (the_event w)\<lparr>data := (data (the_event w))
             \<lparr>stacktrace_string :=
                get_stacktrace_string_with_metrics env vs (platform (the_event w))\<rparr>\<rparr>)"
  by (simp add: has_empty_stacktrace_string_def Let_def)

lemma stacktrace_event_fields [simp]:
  "event_id (the_event (snd (has_empty_stacktrace_string env vs w))) = event_id (the_event w)"
  "project (the_event (snd (has_empty_stacktrace_string env vs w))) = project (the_event w)"
  "platform (the_event (snd (has_empty_stacktrace_string env vs w))) = platform (the_event w)"
  "primary_hash (the_event (snd (has_empty_stacktrace_string env vs w))) =
     primary_hash (the_event w)"
  by (simp_all add: stacktrace_event)

lemma stacktrace_fst:
  "fst (has_empty_stacktrace_string env vs w) \<longleftrightarrow>
     not_str (get_stacktrace_string_with_metrics env vs (platform (the_event w)))"
  by (simp add: has_empty_stacktrace_string_def Let_def)

lemma stacktrace_trace:
  "trace (snd (has_empty_stacktrace_string env vs w)) =
     trace w @ stacktrace_effects env (the_event w) vs"
  by (simp add: has_empty_stacktrace_string_def stacktrace_effects_def Let_def)

lemma ratelimit_frame [simp]:
  "the_event (snd (ratelimiting_enabled env p w)) = the_event w"
  "metadata_rows (snd (ratelimiting_enabled env p w)) = metadata_rows w"
  by (simp_all add: ratelimiting_enabled_def Let_def split_beta)

lemma ratelimit_fst:
  "fst (ratelimiting_enabled env p w) =
     (if zero_window env then Inl ZeroDivisionError
      else if fst (global_check env (limiter w)) then Inr True
      else Inr (fst (project_check env p (limiter w))))"
  by (simp add: ratelimiting_enabled_def Let_def split_beta zero_window_def global_check_def
        project_check_def global_key_def project_key_def)

lemma ratelimit_limiter:
  "limiter (snd (ratelimiting_enabled env p w)) =
     (if zero_window env then limiter w
      else if fst (global_check env (limiter w)) then snd (global_check env (limiter w))
      else snd (project_check env p (limiter w)))"
  by (simp add: ratelimiting_enabled_def Let_def split_beta zero_window_def global_check_def
        project_check_def global_key_def project_key_def)

lemma ratelimit_trace:
  "trace (snd (ratelimiting_enabled env p w)) =
     trace w @ ratelimit_effects env (event_id (the_event w)) p (limiter w)"
  by (simp add: ratelimiting_enabled_def ratelimit_effects_def Let_def split_beta
        zero_window_def global_check_def project_check_def global_key_def project_key_def)

lemmas gate_unfold = should_call_seer_for_grouping_def Let_def split_beta
  content_fst backfill_fst fingerprint_fst frames_fst breaker_fst stacktrace_fst

lemma gate_metadata [simp]:
  "metadata_rows (snd (should_call_seer_for_grouping env vs w)) = metadata_rows w"
  by (simp add: gate_unfold split: sum.splits)

lemma gate_event_fields [simp]:
  "event_id (the_event (snd (should_call_seer_for_grouping env vs w))) = event_id (the_event w)"
  "project (the_event (snd (should_call_seer_for_grouping env vs w))) = project (the_event w)"
  "platform (the_event (snd (should_call_seer_for_grouping env vs w))) = platform (the_event w)"
  "primary_hash (the_event (snd (should_call_seer_for_grouping env vs w))) =
     primary_hash (the_event w)"
  by (simp_all add: gate_unfold split: sum.splits)

lemmas gate_traces = content_trace backfill_trace fingerprint_trace frames_trace breaker_trace
  stacktrace_trace ratelimit_trace

lemma gate_trace:
  "trace (snd (should_call_seer_for_grouping env vs w)) =
     trace w @ content_effects env (the_event w)
       @ backfill_effects env (project (the_event w))
       @ (if \<not> (fst (event_content_is_seer_eligible env w)
                 \<and> fst (project_has_similarity_grouping_enabled env (project (the_event w)) w))
          then []
          else fingerprint_effects (the_event w) vs
            @ (if fst (has_customized_fingerprint env vs w) then []
               else frames_effects env (the_event w) vs
                 @ (if fst (has_too_many_contributing_frames env vs w) then []
                    else Call ''killswitch_enabled''
                      # (if utils_killswitch_enabled env (project_id (project (the_event w)))
                              (the_event w) then []
                         else breaker_effects env (the_event w) (project (the_event w))
                           @ (if fst (circuit_breaker_broken env (project (the_event w)) w) then []
                              else stacktrace_effects env (the_event w) vs
                                @ (if fst (has_empty_stacktrace_string env vs w) then []
                                   else ratelimit_effects env (event_id (the_event w))
                                          (project (the_event w)) (limiter w)))))))"
  by (simp add: gate_unfold gate_traces split: sum.splits)

lemma gate_fst:
  "fst (should_call_seer_for_grouping env vs w) =
     (if \<not> passes_first_seven env vs w then Inr False
      else if zero_window env then Inl ZeroDivisionError
      else Inr (\<not> fst (global_check env (limiter w))
                \<and> \<not> fst (project_check env (project (the_event w)) (limiter w))))"
  by (simp add: passes_first_seven_def gate_unfold ratelimit_fst split: sum.splits)

lemma gate_limiter:
  "limiter (snd (should_call_seer_for_grouping env vs w)) =
     (if \<not> passes_first_seven env vs w \<or> zero_window env then limiter w
      else if fst (global_check env (limiter w)) then snd (global_check env (limiter w))
      else snd (project_check env (project (the_event w)) (limiter w)))"
  by (simp add: passes_first_seven_def gate_unfold ratelimit_limiter split: sum.splits)

lemma gate_event:
  "the_event (snd (should_call_seer_for_grouping env vs w)) =
     (if passes_first_seven env vs w
      then (the_event w)\<lparr>data := (data (the_event w))
             \<lparr>stacktrace_string :=
                get_stacktrace_string_with_metrics env vs (platform (the_event w))\<rparr>\<rparr>
      else the_event w)"
  by (simp add: passes_first_seven_def gate_unfold stacktrace_event split: sum.splits)

lemma blockers_simps [simp]:
  "blockers [] = []"
  "blockers (x # xs) = (case blocker_of x of None \<Rightarrow> blockers xs | Some b \<Rightarrow> b # blockers xs)"
  "blockers (xs @ ys) = blockers xs @ blockers ys"
  by (simp_all add: blockers_def List.map_filter_def split: option.splits)

lemma effects_gate_checks [simp]:
  "filter is_gate_check (content_effects env ev) = [Enter ''_event_content_is_seer_eligible'']"
  "filter is_gate_check (backfill_effects env p) =
     [Enter ''_project_has_similarity_grouping_enabled'']"
  "filter is_gate_check (fingerprint_effects ev vs) = [Enter ''_has_customized_fingerprint'']"
  "filter is_gate_check (frames_effects env ev vs) = [Enter ''_has_too_many_contributing_frames'']"
  "filter is_gate_check (breaker_effects env ev p) = [Enter ''_circuit_breaker_broken'']"
  "filter is_gate_check (stacktrace_effects env ev vs) = [Enter ''_has_empty_stacktrace_string'']"
  "filter is_gate_check (ratelimit_effects env eid p l) = [Enter ''_ratelimiting_enabled'']"
  by (simp_all add: content_effects_def backfill_effects_def fingerprint_effects_def
        frames_effects_def breaker_effects_def stacktrace_effects_def ratelimit_effects_def
      split: option.splits)

lemma effects_limiter_calls [simp]:
  "filter is_limiter_call (content_effects env ev) = []"
  "filter is_limiter_call (backfill_effects env p) = []"
  "filter is_limiter_call (fingerprint_effects ev vs) = []"
  "filter is_limiter_call (frames_effects env ev vs) = []"
  "filter is_limiter_call (breaker_effects env ev p) = []"
  "filter is_limiter_call (stacktrace_effects env ev vs) = []"
  by (simp_all add: content_effects_def backfill_effects_def fingerprint_effects_def
        frames_effects_def breaker_effects_def stacktrace_effects_def
      split: option.splits)



section \<open>What the call to Seer does\<close>

lemma seer_fst:
  "fst (get_seer_similar_issues env vs k w) =
     (if not_str (seer_stacktrace env vs w) then
        Inr (\<lparr>results = [], similarity_model_version = SEER_SIMILARITY_MODEL_VERSION env\<rparr>,
             None)
      else case get_similarity_data_from_seer env (seer_request env vs k w) of
             Inl e \<Rightarrow> Inl e
           | Inr rs \<Rightarrow>
               Inr (\<lparr>results = rs,
                      similarity_model_version = SEER_SIMILARITY_MODEL_VERSION env\<rparr>,
                    parent_lookup env (project_id (project (the_event w))) rs))"
  by (simp add: get_seer_similar_issues_def seer_stacktrace_def seer_request_def
        parent_lookup_def Let_def split_beta split: sum.splits list.splits)

lemma seer_trace:
  "trace (snd (get_seer_similar_issues env vs k w)) = trace w @ seer_effects env vs k w"
  by (simp add: get_seer_similar_issues_def seer_effects_def seer_stacktrace_def
        seer_request_def parent_lookup_def Let_def split_beta split: sum.splits list.splits)

lemma seer_frame [simp]:
  "limiter (snd (get_seer_similar_issues env vs k w)) = limiter w"
  "metadata_rows (snd (get_seer_similar_issues env vs k w)) = metadata_rows w"
  "event_id (the_event (snd (get_seer_similar_issues env vs k w))) = event_id (the_event w)"
  "project (the_event (snd (get_seer_similar_issues env vs k w))) = project (the_event w)"
  "platform (the_event (snd (get_seer_similar_issues env vs k w))) = platform (the_event w)"
  "primary_hash (the_event (snd (get_seer_similar_issues env vs k w))) =
     primary_hash (the_event w)"
  by (simp_all add: get_seer_similar_issues_def Let_def split_beta
        split: sum.splits list.splits)

lemma seer_event:
  "the_event (snd (get_seer_similar_issues env vs k w)) =
     (if not_str (seer_stacktrace env vs w) then the_event w
      else (the_event w)\<lparr>data := (data (the_event w))\<lparr>stacktrace_string := None\<rparr>\<rparr>)"
  by (simp add: get_seer_similar_issues_def seer_stacktrace_def Let_def split_beta
        split: sum.splits list.splits)

lemma seer_requests_simps [simp]:
  "seer_requests [] = []"
  "seer_requests (x # xs) =
     (case request_of x of None \<Rightarrow> seer_requests xs | Some r \<Rightarrow> r # seer_requests xs)"
  "seer_requests (xs @ ys) = seer_requests xs @ seer_requests ys"
  by (simp_all add: seer_requests_def List.map_filter_def split: option.splits)

lemma grouphash_queries_simps [simp]:
  "grouphash_queries [] = []"
  "grouphash_queries (x # xs) =
     (case query_of x of None \<Rightarrow> grouphash_queries xs | Some q \<Rightarrow> q # grouphash_queries xs)"
  "grouphash_queries (xs @ ys) = grouphash_queries xs @ grouphash_queries ys"
  by (simp_all add: grouphash_queries_def List.map_filter_def split: option.splits)

lemma seer_effects_requests:
  "seer_requests (seer_effects env vs k w) =
     (if not_str (seer_stacktrace env vs w) then [] else [seer_request env vs k w])"
  by (simp add: seer_effects_def split: sum.splits list.splits)


section \<open>What the orchestrator does\<close>

lemma filter_case_find:
  "(case filter P xs of [] \<Rightarrow> a | x # _ \<Rightarrow> f x) = (case find P xs of None \<Rightarrow> a | Some x \<Rightarrow> f x)"
  by (induction xs) simp_all

lemma after_gate_frame [simp]:
  "metadata_rows (after_gate env vs w) = metadata_rows w"
  "event_id (the_event (after_gate env vs w)) = event_id (the_event w)"
  "project (the_event (after_gate env vs w)) = project (the_event w)"
  "primary_hash (the_event (after_gate env vs w)) = primary_hash (the_event w)"
  by (simp_all add: after_gate_def)

lemma maybe_gate_no:
  assumes "fst (should_call_seer_for_grouping env vs w) = Inr False"
  shows "maybe_check_seer_for_matching_grouphash env vs ghs w =
           (Inr None, snd (should_call_seer_for_grouping env vs w))"
  using assms
  by (cases "should_call_seer_for_grouping env vs w")
     (simp add: maybe_check_seer_for_matching_grouphash_def)

lemma maybe_gate_raise:
  assumes "fst (should_call_seer_for_grouping env vs w) = Inl e"
  shows "maybe_check_seer_for_matching_grouphash env vs ghs w =
           (Inl e, snd (should_call_seer_for_grouping env vs w))"
  using assms
  by (cases "should_call_seer_for_grouping env vs w")
     (simp add: maybe_check_seer_for_matching_grouphash_def)

lemma maybe_seer_raise:
  assumes "fst (should_call_seer_for_grouping env vs w) = Inr True"
    and "fst (get_seer_similar_issues env vs 1 (after_gate env vs w)) = Inl e"
  shows "maybe_check_seer_for_matching_grouphash env vs ghs w =
           (Inr None,
            emit (Capture_exception e (event_id (the_event w)) (project_id (project (the_event w))))
              (snd (get_seer_similar_issues env vs 1 (after_gate env vs w))))"
proof -
  obtain w1 where g: "should_call_seer_for_grouping env vs w = (Inr True, w1)"
    using assms(1) by (cases "should_call_seer_for_grouping env vs w") simp
  then have a: "after_gate env vs w = emit (Did_call_seer_metric True ''none'') w1"
    by (simp add: after_gate_def)
  obtain w3 where s: "get_seer_similar_issues env vs 1 (after_gate env vs w) = (Inl e, w3)"
    using assms(2) by (cases "get_seer_similar_issues env vs 1 (after_gate env vs w)") simp
  have "event_id (the_event w3) = event_id (the_event w)"
    and "project (the_event w3) = project (the_event w)"
    using seer_frame(3,4) [of env vs 1 "after_gate env vs w"] s by simp_all
  with g a s show ?thesis
    by (simp add: maybe_check_seer_for_matching_grouphash_def)
qed

lemma maybe_seer_returns:
  assumes "fst (should_call_seer_for_grouping env vs w) = Inr True"
    and "fst (get_seer_similar_issues env vs 1 (after_gate env vs w)) = Inr (md, m)"
  shows "maybe_check_seer_for_matching_grouphash env vs ghs w =
     (let w3 = snd (get_seer_similar_issues env vs 1 (after_gate env vs w)) in
      case find (\<lambda>g. hash g = primary_hash (the_event w)) ghs of
        None \<Rightarrow> (Inl IndexError, w3)
      | Some g \<Rightarrow>
          (case metadata_rows w (gh_id g) of
             None \<Rightarrow> (Inr m, w3)
           | Some meta \<Rightarrow>
               (case m of
                  Some _ \<Rightarrow>
                    (case results md of
                       [] \<Rightarrow> (Inl IndexError, w3)
                     | r # _ \<Rightarrow>
                         (Inr m,
                          w3\<lparr>metadata_rows := (metadata_rows w)
                               (gh_id g := Some (meta
                                  \<lparr>seer_date_sent := Some (date_added meta),
                                   seer_event_sent := Some (event_id (the_event w)),
                                   seer_model := Some (similarity_model_version md),
                                   seer_matched_grouphash := m,
                                   seer_match_distance := Some (stacktrace_distance r)\<rparr>))\<rparr>))
                | None \<Rightarrow>
                    (Inr m,
                     w3\<lparr>metadata_rows := (metadata_rows w)
                          (gh_id g := Some (meta
                             \<lparr>seer_date_sent := Some (date_added meta),
                              seer_event_sent := Some (event_id (the_event w)),
                              seer_model := Some (similarity_model_version md),
                              seer_matched_grouphash := m,
                              seer_match_distance := None\<rparr>))\<rparr>))))"
proof -
  obtain w1 where g: "should_call_seer_for_grouping env vs w = (Inr True, w1)"
    using assms(1) by (cases "should_call_seer_for_grouping env vs w") simp
  then have a: "after_gate env vs w = emit (Did_call_seer_metric True ''none'') w1"
    by (simp add: after_gate_def)
  obtain w3 where s: "get_seer_similar_issues env vs 1 (after_gate env vs w) = (Inr (md, m), w3)"
    using assms(2) by (cases "get_seer_similar_issues env vs 1 (after_gate env vs w)") simp
  have "event_id (the_event w3) = event_id (the_event w)"
    and "primary_hash (the_event w3) = primary_hash (the_event w)"
    and "metadata_rows w3 = metadata_rows w"
    using seer_frame(2,3,6) [of env vs 1 "after_gate env vs w"] s by simp_all
  with g a s show ?thesis
    by (auto simp add: maybe_check_seer_for_matching_grouphash_def filter_case_find
          split: option.splits list.splits)
qed

lemma seer_match_has_result:
  assumes "fst (get_seer_similar_issues env vs k w) = Inr (md, m)" and "m \<noteq> None"
  shows "results md \<noteq> []"
  using assms
  by (auto simp add: seer_fst parent_lookup_def split: if_splits sum.splits)

section \<open>The concrete deployment, evaluated\<close>

lemma ex_env_fields:
  "SEER_INELIGIBLE_EVENT_PLATFORMS (ex_env\<lparr>get_similarity_data_from_seer := f\<rparr>) = [''other'']"
  "SEER_SIMILARITY_MODEL_VERSION (ex_env\<lparr>get_similarity_data_from_seer := f\<rparr>) = ''v0''"
  "global_rate_limit (ex_env\<lparr>get_similarity_data_from_seer := f\<rparr>) = \<lparr>limit = 20, window = 1\<rparr>"
  "per_project_rate_limit (ex_env\<lparr>get_similarity_data_from_seer := f\<rparr>)
     = \<lparr>limit = 5, window = 1\<rparr>"
  "similarity_backfill_completed (ex_env\<lparr>get_similarity_data_from_seer := f\<rparr>)
     = (\<lambda>_. PInt 1700000000)"
  "utils_event_content_has_stacktrace (ex_env\<lparr>get_similarity_data_from_seer := f\<rparr>)
     = (\<lambda>_. True)"
  "utils_has_too_many_contributing_frames (ex_env\<lparr>get_similarity_data_from_seer := f\<rparr>)
     = (\<lambda>_ _. False)"
  "utils_killswitch_enabled (ex_env\<lparr>get_similarity_data_from_seer := f\<rparr>) = (\<lambda>_ _. False)"
  "should_allow_request (ex_env\<lparr>get_similarity_data_from_seer := f\<rparr>) = True"
  "get_stacktrace_string_with_metrics (ex_env\<lparr>get_similarity_data_from_seer := f\<rparr>)
     = (\<lambda>_ _. Some ''frame'')"
  "is_limited (ex_env\<lparr>get_similarity_data_from_seer := f\<rparr>) = counting_is_limited"
  "get_similarity_data_from_seer (ex_env\<lparr>get_similarity_data_from_seer := f\<rparr>) = f"
  "grouphash_table (ex_env\<lparr>get_similarity_data_from_seer := f\<rparr>) = [ex_parent, ex_grouphash]"
  by (simp_all add: ex_env_def)

lemma ex_world_fields:
  "the_event ex_world = ex_event"
  "limiter ex_world = (\<lambda>_. 0)"
  "metadata_rows ex_world = [7 \<mapsto> ex_metadata]"
  "trace ex_world = []"
  "event_id ex_event = ''e1''"
  "project ex_event = ex_project"
  "platform ex_event = Some ''python''"
  "primary_hash ex_event = ''h1''"
  "fingerprint (data ex_event) = Some [''{{ default }}'']"
  "stacktrace_string (data ex_event) = None"
  "project_id ex_project = 1"
  by (simp_all add: ex_world_def ex_event_def ex_project_def)

lemma ex_passes_first_seven:
  "passes_first_seven (ex_env\<lparr>get_similarity_data_from_seer := f\<rparr>) Map.empty ex_world"
  by (simp add: passes_first_seven_def content_fst backfill_fst fingerprint_fst frames_fst
        breaker_fst stacktrace_fst fingerprint_blocker_def ex_env_fields ex_world_fields)

lemma ex_gate_passes:
  "fst (should_call_seer_for_grouping (ex_env\<lparr>get_similarity_data_from_seer := f\<rparr>)
          Map.empty ex_world) = Inr True"
  by (simp add: gate_fst ex_passes_first_seven zero_window_def global_check_def
        project_check_def counting_is_limited_def ex_env_fields ex_world_fields)

lemma ex_after_gate_event:
  "the_event (after_gate (ex_env\<lparr>get_similarity_data_from_seer := f\<rparr>) Map.empty ex_world) =
     ex_event\<lparr>data := (data ex_event)\<lparr>stacktrace_string := Some ''frame''\<rparr>\<rparr>"
  by (simp add: after_gate_def gate_event ex_passes_first_seven ex_env_fields ex_world_fields)

lemma ex_seer_stacktrace:
  "seer_stacktrace (ex_env\<lparr>get_similarity_data_from_seer := f\<rparr>) Map.empty
     (after_gate (ex_env\<lparr>get_similarity_data_from_seer := f\<rparr>) Map.empty ex_world)
     = Some ''frame''"
  by (simp add: seer_stacktrace_def ex_after_gate_event)

lemma ex_seer_fst:
  "fst (get_seer_similar_issues (ex_env\<lparr>get_similarity_data_from_seer := f\<rparr>) Map.empty 1
          (after_gate (ex_env\<lparr>get_similarity_data_from_seer := f\<rparr>) Map.empty ex_world)) =
     (case f (seer_request (ex_env\<lparr>get_similarity_data_from_seer := f\<rparr>) Map.empty 1
                (after_gate (ex_env\<lparr>get_similarity_data_from_seer := f\<rparr>) Map.empty ex_world)) of
        Inl e \<Rightarrow> Inl e
      | Inr rs \<Rightarrow>
          Inr (\<lparr>results = rs, similarity_model_version = ''v0''\<rparr>,
               parent_lookup (ex_env\<lparr>get_similarity_data_from_seer := f\<rparr>) 1 rs))"
  by (simp add: seer_fst ex_seer_stacktrace ex_after_gate_event ex_env_fields ex_world_fields
        split: sum.splits)

lemmas ex_gate_passes0 =
  ex_gate_passes [of "get_similarity_data_from_seer ex_env", simplified]

lemmas ex_seer_fst0 =
  ex_seer_fst [of "get_similarity_data_from_seer ex_env", simplified]

lemma ex_remote:
  "get_similarity_data_from_seer ex_env r
     = Inr [\<lparr>parent_hash = ''h0'', stacktrace_distance = 1 / 100\<rparr>]"
  by (simp add: ex_env_def)

lemma ex_parent_lookup:
  "parent_lookup ex_env 1 [\<lparr>parent_hash = ''h0'', stacktrace_distance = 1 / 100\<rparr>]
     = Some ex_parent"
  by (simp add: parent_lookup_def ex_env_def ex_parent_def)

section \<open>The order of the gate\<close>




section \<open>The rate limit is last\<close>

text \<open>
  C2. When any of the checks before the rate limit fails (no stack trace, ineligible
  platform, no backfill, too many frames, customized fingerprint, killswitch, open circuit
  breaker, empty stacktrace string), the gate answers no, \<open>is_limited\<close> is not called, and
  the limiter's backend is in the state it was in.
\<close>

theorem failed_check_consumes_no_rate_limit:
  assumes "\<not> utils_event_content_has_stacktrace env (the_event w)
    \<or> platform (the_event w) \<in> Some ` set (SEER_INELIGIBLE_EVENT_PLATFORMS env)
    \<or> \<not> truthy (similarity_backfill_completed env (project (the_event w)))
    \<or> utils_has_too_many_contributing_frames env (the_event w) vs
    \<or> fst (has_customized_fingerprint env vs w)
    \<or> utils_killswitch_enabled env (project_id (project (the_event w))) (the_event w)
    \<or> \<not> should_allow_request env
    \<or> not_str (get_stacktrace_string_with_metrics env vs (platform (the_event w)))"
  shows "fst (should_call_seer_for_grouping env vs w) = Inr False
     \<and> limiter (snd (should_call_seer_for_grouping env vs w)) = limiter w
     \<and> filter is_limiter_call (new_effects w (snd (should_call_seer_for_grouping env vs w))) = []"
proof -
  have "\<not> passes_first_seven env vs w"
    using assms
    by (auto simp add: passes_first_seven_def content_fst backfill_fst frames_fst breaker_fst
          stacktrace_fst)
  then show ?thesis
    by (auto simp add: gate_fst gate_limiter new_effects_def gate_trace passes_first_seven_def)
qed

theorem failed_check_consumes_no_rate_limit_witness:
  "fst (has_customized_fingerprint ex_env Map.empty ex_world_hybrid)
   \<and> fst (should_call_seer_for_grouping ex_env Map.empty ex_world_hybrid) = Inr False
   \<and> limiter (snd (should_call_seer_for_grouping ex_env Map.empty ex_world_hybrid))
       = limiter ex_world_hybrid
   \<and> filter is_limiter_call
       (new_effects ex_world_hybrid
          (snd (should_call_seer_for_grouping ex_env Map.empty ex_world_hybrid))) = []"
proof -
  have h: "fst (has_customized_fingerprint ex_env Map.empty ex_world_hybrid)"
    by (simp add: fingerprint_fst fingerprint_blocker_def ex_world_hybrid_def ex_world_def
          ex_event_def)
  then show ?thesis
    using failed_check_consumes_no_rate_limit [of ex_env ex_world_hybrid Map.empty]
    by blast
qed

section \<open>Global before per-project\<close>



section \<open>The customized-fingerprint check\<close>




section \<open>The match returned by the call to Seer\<close>



section \<open>The metadata returned by the call to Seer\<close>

text \<open>
  C7. Whenever \<open>get_seer_similar_issues\<close> returns, the metadata carries the model version,
  and its result list is the whole list that Seer answered to the request that was sent.
  When the stacktrace string is empty no request is sent, and the function returns the
  empty metadata and no match. An empty result list always comes with no match.
\<close>

theorem seer_metadata_has_results_and_version:
  assumes "get_seer_similar_issues env vs k w = (Inr (md, m), w')"
  shows "similarity_model_version md = SEER_SIMILARITY_MODEL_VERSION env
     \<and> (case seer_requests (new_effects w w') of
           [] \<Rightarrow> not_str (seer_stacktrace env vs w) \<and> results md = []
         | req # _ \<Rightarrow> get_similarity_data_from_seer env req = Inr (results md))
     \<and> (not_str (seer_stacktrace env vs w) \<longrightarrow> seer_requests (new_effects w w') = [])
     \<and> (results md = [] \<longrightarrow>
           md = \<lparr>results = [], similarity_model_version = SEER_SIMILARITY_MODEL_VERSION env\<rparr>
           \<and> m = None)"
proof -
  have f: "fst (get_seer_similar_issues env vs k w) = Inr (md, m)"
    and s: "w' = snd (get_seer_similar_issues env vs k w)"
    using assms by simp_all
  show ?thesis
  proof (cases "not_str (seer_stacktrace env vs w)")
    case True
    with f s show ?thesis
      by (auto simp add: seer_fst new_effects_def seer_trace seer_effects_requests)
  next
    case False
    with f obtain rs where
      r: "get_similarity_data_from_seer env (seer_request env vs k w) = Inr rs"
      and md: "md = \<lparr>results = rs,
                      similarity_model_version = SEER_SIMILARITY_MODEL_VERSION env\<rparr>"
      and m: "m = parent_lookup env (project_id (project (the_event w))) rs"
      by (auto simp add: seer_fst split: sum.splits)
    with False s show ?thesis
      by (auto simp add: parent_lookup_def new_effects_def seer_trace seer_effects_requests)
  qed
qed

theorem seer_metadata_has_results_and_version_witness:
  "get_seer_similar_issues ex_env_no_results Map.empty 1 ex_world
     = (Inr (\<lparr>results = [], similarity_model_version = ''v0''\<rparr>, None),
        snd (get_seer_similar_issues ex_env_no_results Map.empty 1 ex_world))
   \<and> \<not> not_str (seer_stacktrace ex_env_no_results Map.empty ex_world)
   \<and> (case seer_requests
             (new_effects ex_world
                (snd (get_seer_similar_issues ex_env_no_results Map.empty 1 ex_world))) of
         [] \<Rightarrow> False
       | req # _ \<Rightarrow> get_similarity_data_from_seer ex_env_no_results req = Inr [])"
proof -
  have h: "get_seer_similar_issues ex_env_no_results Map.empty 1 ex_world
     = (Inr (\<lparr>results = [], similarity_model_version = ''v0''\<rparr>, None),
        snd (get_seer_similar_issues ex_env_no_results Map.empty 1 ex_world))"
    by (simp add: prod_eq_iff seer_fst seer_stacktrace_def seer_request_def parent_lookup_def
          ex_env_no_results_def ex_env_def ex_world_def ex_event_def)
  have n: "\<not> not_str (seer_stacktrace ex_env_no_results Map.empty ex_world)"
    by (simp add: seer_stacktrace_def ex_env_no_results_def ex_env_def ex_world_def ex_event_def)
  from seer_metadata_has_results_and_version [OF h] h n show ?thesis
    by (simp split: list.splits)
qed

section \<open>A failing call to Seer\<close>

text \<open>
  C3. When the gate has passed and \<open>get_seer_similar_issues\<close> raises, the orchestrator
  returns none without raising; the one thing it adds to what the call had done is the
  report of the exception, tagged with the event's id and the project's id; and the
  metadata rows are those it started with.
\<close>

theorem seer_exception_is_captured:
  assumes "should_call_seer_for_grouping env vs w = (Inr True, w1)"
    and "get_seer_similar_issues env vs 1 (emit (Did_call_seer_metric True ''none'') w1)
           = (Inl e, w3)"
  shows "maybe_check_seer_for_matching_grouphash env vs ghs w =
           (Inr None,
            emit (Capture_exception e (event_id (the_event w)) (project_id (project (the_event w))))
              w3)
     \<and> metadata_rows (snd (maybe_check_seer_for_matching_grouphash env vs ghs w))
         = metadata_rows w"
proof -
  have a: "after_gate env vs w = emit (Did_call_seer_metric True ''none'') w1"
    using assms(1) by (simp add: after_gate_def)
  have "metadata_rows w1 = metadata_rows w"
    using gate_metadata [of env vs w] assms(1) by simp
  then have m: "metadata_rows w3 = metadata_rows w"
    using seer_frame(2) [of env vs 1 "after_gate env vs w"] assms(2) a by simp
  have "maybe_check_seer_for_matching_grouphash env vs ghs w =
           (Inr None,
            emit (Capture_exception e (event_id (the_event w)) (project_id (project (the_event w))))
              w3)"
    using maybe_seer_raise [of env vs w e ghs] assms a by simp
  with m show ?thesis by simp
qed

theorem seer_exception_is_captured_witness:
  "fst (maybe_check_seer_for_matching_grouphash ex_env_seer_down Map.empty [ex_grouphash] ex_world)
     = Inr None
   \<and> last (trace (snd (maybe_check_seer_for_matching_grouphash ex_env_seer_down Map.empty
                         [ex_grouphash] ex_world)))
       = Capture_exception (SeerException ''timeout'') ''e1'' 1
   \<and> metadata_rows (snd (maybe_check_seer_for_matching_grouphash ex_env_seer_down Map.empty
                            [ex_grouphash] ex_world)) 7
       = Some ex_metadata"
proof -
  let ?w1 = "snd (should_call_seer_for_grouping ex_env_seer_down Map.empty ex_world)"
  let ?w3 = "snd (get_seer_similar_issues ex_env_seer_down Map.empty 1
                    (emit (Did_call_seer_metric True ''none'') ?w1))"
  have h1: "should_call_seer_for_grouping ex_env_seer_down Map.empty ex_world = (Inr True, ?w1)"
    by (simp add: prod_eq_iff ex_env_seer_down_def ex_gate_passes)
  have h2: "get_seer_similar_issues ex_env_seer_down Map.empty 1
              (emit (Did_call_seer_metric True ''none'') ?w1)
            = (Inl (SeerException ''timeout''), ?w3)"
    using ex_seer_fst [of "\<lambda>_. Inl (SeerException ''timeout'')"]
    by (simp add: prod_eq_iff ex_env_seer_down_def after_gate_def)
  from seer_exception_is_captured [OF h1 h2, of "[ex_grouphash]"] show ?thesis
    by (simp add: ex_world_fields)
qed

section \<open>What the orchestrator can raise\<close>




section \<open>The metadata update\<close>

text \<open>
  C8. When the gate has passed and the call to Seer has returned, let the entry be the
  first candidate with the event's primary hash. If it has a metadata row, the row is
  overwritten with: the date sent equal to the row's own \<open>date_added\<close>, the event's id,
  the model version of the returned metadata, the matched grouphash (or none), and as
  distance the first result's stacktrace distance when there is a match and none
  otherwise; every other row is as it was. If it has no metadata row, no row changes. The
  orchestrator returns the match.
\<close>

theorem metadata_updated_in_place:
  assumes "should_call_seer_for_grouping env vs w = (Inr True, w1)"
    and "get_seer_similar_issues env vs 1 (emit (Did_call_seer_metric True ''none'') w1)
           = (Inr (md, m), w3)"
    and "find (\<lambda>g. hash g = primary_hash (the_event w)) ghs = Some g"
  shows "fst (maybe_check_seer_for_matching_grouphash env vs ghs w) = Inr m
     \<and> (m \<noteq> None \<longrightarrow> results md \<noteq> [])
     \<and> metadata_rows (snd (maybe_check_seer_for_matching_grouphash env vs ghs w)) =
         (case metadata_rows w (gh_id g) of
            None \<Rightarrow> metadata_rows w
          | Some meta \<Rightarrow>
              (metadata_rows w)
                (gh_id g := Some (meta
                   \<lparr>seer_date_sent := Some (date_added meta),
                    seer_event_sent := Some (event_id (the_event w)),
                    seer_model := Some (similarity_model_version md),
                    seer_matched_grouphash := m,
                    seer_match_distance :=
                      (case m of
                         None \<Rightarrow> None
                       | Some _ \<Rightarrow> Some (stacktrace_distance (hd (results md))))\<rparr>)))"
proof -
  have t: "fst (should_call_seer_for_grouping env vs w) = Inr True"
    using assms(1) by simp
  have a: "after_gate env vs w = emit (Did_call_seer_metric True ''none'') w1"
    using assms(1) by (simp add: after_gate_def)
  have s: "fst (get_seer_similar_issues env vs 1 (after_gate env vs w)) = Inr (md, m)"
    using assms(2) a by simp
  have r: "m \<noteq> None \<Longrightarrow> results md \<noteq> []"
    using seer_match_has_result [OF s] .
  have k: "metadata_rows (snd (get_seer_similar_issues env vs 1 (after_gate env vs w)))
             = metadata_rows w"
    by simp
  show ?thesis
    using maybe_seer_returns [OF t s, of ghs] assms(3) r k
    by (auto simp add: Let_def split: option.splits list.splits)
qed

theorem metadata_updated_in_place_witness:
  "fst (maybe_check_seer_for_matching_grouphash ex_env Map.empty [ex_parent, ex_grouphash]
          ex_world) = Inr (Some ex_parent)
   \<and> metadata_rows
       (snd (maybe_check_seer_for_matching_grouphash ex_env Map.empty [ex_parent, ex_grouphash]
               ex_world)) 7
     = Some \<lparr>date_added = 1000, seer_date_sent = Some 1000, seer_event_sent = Some ''e1'',
             seer_model = Some ''v0'', seer_matched_grouphash = Some ex_parent,
             seer_match_distance = Some (1 / 100)\<rparr>"
proof -
  let ?w1 = "snd (should_call_seer_for_grouping ex_env Map.empty ex_world)"
  let ?w3 = "snd (get_seer_similar_issues ex_env Map.empty 1
                    (emit (Did_call_seer_metric True ''none'') ?w1))"
  have h1: "should_call_seer_for_grouping ex_env Map.empty ex_world = (Inr True, ?w1)"
    by (simp add: prod_eq_iff ex_gate_passes0)
  have h2: "get_seer_similar_issues ex_env Map.empty 1
              (emit (Did_call_seer_metric True ''none'') ?w1)
            = (Inr (\<lparr>results = [\<lparr>parent_hash = ''h0'', stacktrace_distance = 1 / 100\<rparr>],
                      similarity_model_version = ''v0''\<rparr>, Some ex_parent), ?w3)"
    using ex_seer_fst0
    by (simp add: prod_eq_iff after_gate_def ex_remote ex_parent_lookup)
  have h3: "find (\<lambda>g. hash g = primary_hash (the_event ex_world)) [ex_parent, ex_grouphash]
              = Some ex_grouphash"
    by (simp add: ex_parent_def ex_grouphash_def ex_world_fields)
  from metadata_updated_in_place [OF h1 h2 h3] show ?thesis
    by (simp add: ex_world_fields ex_grouphash_def ex_metadata_def)
qed

section \<open>The cached stacktrace string\<close>

text \<open>
  C10 does not hold of the code. \<open>_has_empty_stacktrace_string\<close> stores the string on the
  event, with the comment that it has to be popped later so that it is not stored in the
  database, and the only \<open>pop\<close> is in \<open>get_seer_similar_issues\<close>. When the rate limit,
  which runs after the string is stored, turns the event away, that function is never
  called: the orchestrator returns none and the event still carries the key.
\<close>

theorem stacktrace_string_left_when_rate_limited:
  "stacktrace_string (data (the_event ex_world)) = None
   \<and> fst (maybe_check_seer_for_matching_grouphash ex_env_global_limited Map.empty
            [ex_grouphash] ex_world) = Inr None
   \<and> stacktrace_string (data (the_event
         (snd (maybe_check_seer_for_matching_grouphash ex_env_global_limited Map.empty
                 [ex_grouphash] ex_world)))) = Some ''frame''"
proof -
  have p: "passes_first_seven ex_env_global_limited Map.empty ex_world"
    by (simp add: passes_first_seven_def content_fst backfill_fst fingerprint_fst frames_fst
          breaker_fst stacktrace_fst fingerprint_blocker_def ex_env_global_limited_def
          ex_env_def ex_world_fields)
  have g: "fst (should_call_seer_for_grouping ex_env_global_limited Map.empty ex_world)
             = Inr False"
    by (simp add: gate_fst p zero_window_def global_check_def counting_is_limited_def
          ex_env_global_limited_def ex_env_def ex_world_fields)
  have e: "stacktrace_string (data (the_event
             (snd (should_call_seer_for_grouping ex_env_global_limited Map.empty ex_world))))
           = Some ''frame''"
    by (simp add: gate_event p) (simp add: ex_env_global_limited_def ex_env_def)
  from maybe_gate_no [OF g, of "[ex_grouphash]"] e show ?thesis
    by (simp add: ex_world_fields)
qed

end
